theory Spec2Isabelle
  imports Complex_Main
begin

section \<open>Lab solution calculator: the calculation modes of app.py\<close>

text \<open>
  The calculator is a script: every mode reads its inputs from widgets and the global
  settings from the sidebar, evaluates closed-form formulas and writes the results.
  Each mode becomes a function from the values the widgets return to the values the
  mode displays.

  Numbers: the script computes with Python floats. The model computes with exact
  reals, so every statement below is about the formulas of the script in exact
  arithmetic; rounding of the floating-point operations is not part of the model.
  A float division by zero raises \<open>ZeroDivisionError\<close> in Python and is a failure
  value here.
\<close>

subsection \<open>Failures\<close>

datatype failure =
    ZeroDivisionError        \<comment> \<open>Python exception of \<open>/\<close> with a zero divisor\<close>
  | UnitsDiffer              \<comment> \<open>st.error: keep units the same\<close>
  | EpsilonPathNotPositive   \<comment> \<open>st.error: Epsilon and pathlength must be > 0\<close>
  | DeadVolumeTooLarge       \<comment> \<open>st.error: Dead volume is >= total volume\<close>

subsection \<open>Subscription plan lookup\<close>

text \<open>
  The backend is outside the script: a query either raises or answers with a response
  whose \<open>data\<close> is absent or a list of rows, each row a dictionary from column names to
  values. The backend is a parameter of the model.
\<close>

datatype json = JNull | JStr string | JNum int

type_synonym db_row = "(string \<times> json) list"

datatype backend_exn = Backend_exn string

datatype response = Response "db_row list option"

type_synonym backend = "string \<Rightarrow> backend_exn + response"

text \<open>The body of the \<open>try\<close>: it raises what the query raises.\<close>

definition query_plan :: "backend \<Rightarrow> string \<Rightarrow> backend_exn + json" where
  "query_plan supabase user_id =
     (case supabase user_id of
        Inl e \<Rightarrow> Inl e
      | Inr (Response d) \<Rightarrow>
          let data = (case d of None \<Rightarrow> [] | Some rs \<Rightarrow> rs)
          in (case data of
                [] \<Rightarrow> Inr (JStr ''free'')
              | r # _ \<Rightarrow>
                  (case map_of r ''plan'' of
                     Some p \<Rightarrow> Inr p
                   | None \<Rightarrow> Inr (JStr ''free''))))"

text \<open>The function: \<open>except Exception\<close> turns every exception of the body into "free".\<close>

definition get_subscription_plan :: "backend \<Rightarrow> string \<Rightarrow> backend_exn + json" where
  "get_subscription_plan supabase user_id =
     (case query_plan supabase user_id of
        Inl e \<Rightarrow> Inr (JStr ''free'')
      | Inr p \<Rightarrow> Inr p)"

subsection \<open>Python's round(x, ndigits)\<close>

text \<open>
  \<open>round(x, n)\<close> gives the multiple of \<open>10^-n\<close> nearest to \<open>x\<close>, a tie going to the
  even multiple.
\<close>

definition round_half_even :: "real \<Rightarrow> int" where
  "round_half_even x =
     (let f = \<lfloor>x\<rfloor>; d = x - of_int f
      in if d < 1 / 2 then f
         else if 1 / 2 < d then f + 1
         else if even f then f else f + 1)"

definition py_round :: "real \<Rightarrow> nat \<Rightarrow> real" where
  "py_round x n = of_int (round_half_even (x * 10 ^ n)) / 10 ^ n"

subsection \<open>Global settings (sidebar)\<close>

datatype vehicle = Aqueous_none | DMSO | EtOH

record settings =
  well_volume :: real
  max_vehicle :: real
  vehicle_type :: vehicle
  stock_vehicle_percent :: real

text \<open>
  The sidebar widgets bound these values (\<open>min_value\<close>, \<open>max_value\<close>): the well volume is
  at least 1, the cap \<open>max_vehicle\<close> at least 0, the stock vehicle percent between 0 and
  100.
\<close>

definition vehicle_frac :: "settings \<Rightarrow> real" where
  "vehicle_frac g =
     (if vehicle_type g \<noteq> Aqueous_none \<and> 0 < stock_vehicle_percent g
      then stock_vehicle_percent g / 100
      else 0)"

subsection \<open>Mode 1: single dilution\<close>

datatype conc_unit = Unit_mM | Unit_uM

text \<open>
  What the mode writes: the two volumes, the vehicle percentage, whether the vehicle
  warning is shown, and the intermediate stock concentration suggested by the
  small-volume warning (\<open>None\<close> when that warning is not shown).
\<close>

record single_result =
  sd_v1_ul :: real
  sd_solvent_ul :: real
  sd_vehicle_percent :: real
  sd_vehicle_warning :: bool
  sd_intermediate :: "real option"

definition single_dilution ::
  "settings \<Rightarrow> real \<Rightarrow> conc_unit \<Rightarrow> real \<Rightarrow> conc_unit \<Rightarrow> failure + single_result" where
  "single_dilution g stock_conc stock_unit target_conc target_unit =
     (if stock_unit \<noteq> target_unit then Inl UnitsDiffer
      else if stock_conc = 0 then Inl ZeroDivisionError
      else
        let v1_ul = (target_conc * well_volume g) / stock_conc;
            solvent_ul = well_volume g - v1_ul;
            solvent_ul = (if solvent_ul < 0 then 0 else solvent_ul)
        in if well_volume g = 0 then Inl ZeroDivisionError
           else
             let vehicle_percent = (v1_ul * vehicle_frac g / well_volume g) * 100;
                 min_pip = 1
             in Inr \<lparr>sd_v1_ul = v1_ul,
                     sd_solvent_ul = solvent_ul,
                     sd_vehicle_percent = vehicle_percent,
                     sd_vehicle_warning = (max_vehicle g < vehicle_percent),
                     sd_intermediate =
                       (if v1_ul < min_pip
                        then Some ((target_conc * well_volume g) / min_pip)
                        else None)\<rparr>)"

subsection \<open>Mode 2: serial dilutions\<close>






subsection \<open>Mode 3: experiment series\<close>

datatype verdict = Ok_mark | Over_limit | Exceeds

record series_row =
  es_final_conc :: real
  es_add_stock :: real
  es_add_medium :: real
  es_vehicle_percent :: real
  es_ok :: verdict
  es_total_vol :: real

text \<open>
  The list \<open>concs\<close> is the parsed text field; parsing is outside the model. The flag of
  a row compares the unrounded percentage with the cap.
\<close>

definition series_row_of ::
  "settings \<Rightarrow> real \<Rightarrow> int \<Rightarrow> real \<Rightarrow> real \<Rightarrow> failure + series_row" where
  "series_row_of g stock_conc_uM reps overfill c =
     (if stock_conc_uM = 0 then Inl ZeroDivisionError
      else
        let v1_ul = (c * well_volume g) / stock_conc_uM;
            solvent_ul = well_volume g - v1_ul
        in if well_volume g = 0 then Inl ZeroDivisionError
           else
             let vehicle_percent = (v1_ul * vehicle_frac g / well_volume g) * 100;
                 total_vol_ul = (v1_ul + solvent_ul) * of_int reps * overfill
             in Inr \<lparr>es_final_conc = c,
                     es_add_stock = py_round v1_ul 3,
                     es_add_medium = py_round solvent_ul 3,
                     es_vehicle_percent = py_round vehicle_percent 5,
                     es_ok = (if max_vehicle g < vehicle_percent then Over_limit else Ok_mark),
                     es_total_vol = py_round total_vol_ul 1\<rparr>)"

fun experiment_series_loop ::
  "settings \<Rightarrow> real \<Rightarrow> int \<Rightarrow> real \<Rightarrow> real list \<Rightarrow> series_row list
     \<Rightarrow> failure + series_row list" where
  "experiment_series_loop g stock_conc_uM reps overfill [] table = Inr table"
| "experiment_series_loop g stock_conc_uM reps overfill (c # cs) table =
     (case series_row_of g stock_conc_uM reps overfill c of
        Inl e \<Rightarrow> Inl e
      | Inr r \<Rightarrow> experiment_series_loop g stock_conc_uM reps overfill cs (table @ [r]))"

definition experiment_series ::
  "settings \<Rightarrow> real list \<Rightarrow> real \<Rightarrow> int \<Rightarrow> real \<Rightarrow> failure + series_row list" where
  "experiment_series g concs stock_conc_uM reps overfill =
     experiment_series_loop g stock_conc_uM reps overfill concs []"

subsection \<open>Mode 15: plate DMSO cap checker\<close>





subsection \<open>Mode 4: from solid (mg to solution)\<close>




subsection \<open>Mode 5: unit converter\<close>

datatype direction = Mgml_to_mM | MM_to_mgml

definition unit_converter :: "real \<Rightarrow> direction \<Rightarrow> real \<Rightarrow> failure + real" where
  "unit_converter mw dir x =
     (case dir of
        Mgml_to_mM \<Rightarrow> if mw = 0 then Inl ZeroDivisionError else Inr ((x * 1000) / mw)
      | MM_to_mgml \<Rightarrow> Inr ((x * mw) / 1000))"

subsection \<open>Mode 13: Beer-Lambert\<close>

definition beer_lambert :: "real \<Rightarrow> real \<Rightarrow> real \<Rightarrow> failure + real" where
  "beer_lambert absorbance epsilon pathlength =
     (if 0 < epsilon \<and> 0 < pathlength
      then Inr (absorbance / (epsilon * pathlength))
      else Inl EpsilonPathNotPositive)"

subsection \<open>Mode 16: aliquot splitter\<close>



section \<open>Auxiliary facts\<close>

subsection \<open>Rounding\<close>







subsection \<open>The serial dilution loop in closed form\<close>



subsection \<open>The experiment series loop in closed form\<close>

lemma series_row_of_closed:
  assumes "stock_conc_uM \<noteq> 0" "well_volume g \<noteq> 0"
  shows "series_row_of g stock_conc_uM reps overfill c =
     Inr \<lparr>es_final_conc = c,
          es_add_stock = py_round ((c * well_volume g) / stock_conc_uM) 3,
          es_add_medium = py_round (well_volume g - (c * well_volume g) / stock_conc_uM) 3,
          es_vehicle_percent =
            py_round (((c * well_volume g) / stock_conc_uM * vehicle_frac g / well_volume g) * 100) 5,
          es_ok = (if max_vehicle g <
                      ((c * well_volume g) / stock_conc_uM * vehicle_frac g / well_volume g) * 100
                   then Over_limit else Ok_mark),
          es_total_vol =
            py_round (((c * well_volume g) / stock_conc_uM
                        + (well_volume g - (c * well_volume g) / stock_conc_uM))
                       * of_int reps * overfill) 1\<rparr>"
  unfolding series_row_of_def Let_def by (simp only: assms if_False)

lemma experiment_series_loop_closed:
  assumes "stock_conc_uM \<noteq> 0" "well_volume g \<noteq> 0"
  shows "experiment_series_loop g stock_conc_uM reps overfill concs table =
     Inr (table @ map (\<lambda>c. projr (series_row_of g stock_conc_uM reps overfill c)) concs)"
proof (induction concs arbitrary: table)
  case Nil
  then show ?case by simp
next
  case (Cons c cs)
  show ?case
    by (simp add: series_row_of_closed [OF assms] Cons.IH)
qed

subsection \<open>Rows written with a zero vehicle fraction\<close>







section \<open>Properties\<close>








text \<open>
  C4. Unit converter round trip: for every molecular weight \<open>mw > 0\<close> and every
  concentration \<open>x\<close> in mg/mL, converting \<open>x\<close> to mM and the result back to mg/mL with
  the same molecular weight returns \<open>x\<close> (in exact arithmetic).
\<close>

theorem unit_converter_round_trip:
  assumes "0 < mw"
  shows "\<exists>m. unit_converter mw Mgml_to_mM x = Inr m \<and> unit_converter mw MM_to_mgml m = Inr x"
  using assms by (simp add: unit_converter_def)

theorem unit_converter_round_trip_witness:
  "\<exists>m. unit_converter (28444 / 100) Mgml_to_mM 1 = Inr m \<and> unit_converter (28444 / 100) MM_to_mgml m = Inr 1"
  using unit_converter_round_trip [of "28444 / 100" 1] by simp

text \<open>
  C5. Beer-Lambert: for extinction coefficient and pathlength both positive the
  concentration is \<open>A / (epsilon * pathlength)\<close> (for every absorbance, so also for
  \<open>A \<ge> 0\<close>); absorbance 0.5, epsilon 50000, pathlength 1 give 1.0e-5 M; and when
  epsilon or pathlength is not positive the mode fails with its error message instead of
  a concentration.
\<close>

theorem beer_lambert_spec:
  "(0 < epsilon \<and> 0 < pathlength \<longrightarrow>
      beer_lambert absorbance epsilon pathlength = Inr (absorbance / (epsilon * pathlength)))
   \<and> beer_lambert (1 / 2) 50000 1 = Inr (1 / 100000)
   \<and> (epsilon \<le> 0 \<or> pathlength \<le> 0 \<longrightarrow>
      beer_lambert absorbance epsilon pathlength = Inl EpsilonPathNotPositive)"
  by (auto simp add: beer_lambert_def)

theorem beer_lambert_spec_witness:
  "beer_lambert (3 / 10) 25000 2 = Inr (3 / 500000)
   \<and> beer_lambert (3 / 10) 0 2 = Inl EpsilonPathNotPositive"
  using beer_lambert_spec [of 25000 2 "3 / 10"] beer_lambert_spec [of 0 2 "3 / 10"] by simp

text \<open>
  C6. Subscription plan lookup: the function always returns a value and never raises;
  it returns the stored plan when the first row of the answer has a \<open>plan\<close> field, and
  "free" when the backend raises, when the answer has no data or no rows, and when the
  first row has no \<open>plan\<close> field.
\<close>

theorem get_subscription_plan_safe:
  "(\<exists>p. get_subscription_plan supabase user_id = Inr p)
   \<and> (\<forall>r rs p. supabase user_id = Inr (Response (Some (r # rs))) \<and> map_of r ''plan'' = Some p
         \<longrightarrow> get_subscription_plan supabase user_id = Inr p)
   \<and> (\<forall>e. supabase user_id = Inl e
         \<longrightarrow> get_subscription_plan supabase user_id = Inr (JStr ''free''))
   \<and> (supabase user_id = Inr (Response None) \<or> supabase user_id = Inr (Response (Some []))
         \<longrightarrow> get_subscription_plan supabase user_id = Inr (JStr ''free''))
   \<and> (\<forall>r rs. supabase user_id = Inr (Response (Some (r # rs))) \<and> map_of r ''plan'' = None
         \<longrightarrow> get_subscription_plan supabase user_id = Inr (JStr ''free''))"
  by (auto simp add: get_subscription_plan_def query_plan_def Let_def
        split: sum.splits response.splits option.splits list.splits)

theorem get_subscription_plan_safe_witness:
  "get_subscription_plan
     (\<lambda>u. if u = ''u1'' then Inr (Response (Some [[(''plan'', JStr ''pro'')]]))
          else if u = ''u2'' then Inr (Response (Some [[(''id'', JNum 7)]]))
          else if u = ''u3'' then Inr (Response None)
          else Inl (Backend_exn ''permission denied'')) ''u1'' = Inr (JStr ''pro'')
   \<and> get_subscription_plan
     (\<lambda>u. if u = ''u1'' then Inr (Response (Some [[(''plan'', JStr ''pro'')]]))
          else if u = ''u2'' then Inr (Response (Some [[(''id'', JNum 7)]]))
          else if u = ''u3'' then Inr (Response None)
          else Inl (Backend_exn ''permission denied'')) ''u2'' = Inr (JStr ''free'')
   \<and> get_subscription_plan
     (\<lambda>u. if u = ''u1'' then Inr (Response (Some [[(''plan'', JStr ''pro'')]]))
          else if u = ''u2'' then Inr (Response (Some [[(''id'', JNum 7)]]))
          else if u = ''u3'' then Inr (Response None)
          else Inl (Backend_exn ''permission denied'')) ''u3'' = Inr (JStr ''free'')
   \<and> get_subscription_plan
     (\<lambda>u. if u = ''u1'' then Inr (Response (Some [[(''plan'', JStr ''pro'')]]))
          else if u = ''u2'' then Inr (Response (Some [[(''id'', JNum 7)]]))
          else if u = ''u3'' then Inr (Response None)
          else Inl (Backend_exn ''permission denied'')) ''u4'' = Inr (JStr ''free'')"
  using
    get_subscription_plan_safe [of
      "\<lambda>u. if u = ''u1'' then Inr (Response (Some [[(''plan'', JStr ''pro'')]]))
          else if u = ''u2'' then Inr (Response (Some [[(''id'', JNum 7)]]))
          else if u = ''u3'' then Inr (Response None)
          else Inl (Backend_exn ''permission denied'')" "''u1''"]
    get_subscription_plan_safe [of
      "\<lambda>u. if u = ''u1'' then Inr (Response (Some [[(''plan'', JStr ''pro'')]]))
          else if u = ''u2'' then Inr (Response (Some [[(''id'', JNum 7)]]))
          else if u = ''u3'' then Inr (Response None)
          else Inl (Backend_exn ''permission denied'')" "''u2''"]
    get_subscription_plan_safe [of
      "\<lambda>u. if u = ''u1'' then Inr (Response (Some [[(''plan'', JStr ''pro'')]]))
          else if u = ''u2'' then Inr (Response (Some [[(''id'', JNum 7)]]))
          else if u = ''u3'' then Inr (Response None)
          else Inl (Backend_exn ''permission denied'')" "''u3''"]
    get_subscription_plan_safe [of
      "\<lambda>u. if u = ''u1'' then Inr (Response (Some [[(''plan'', JStr ''pro'')]]))
          else if u = ''u2'' then Inr (Response (Some [[(''id'', JNum 7)]]))
          else if u = ''u3'' then Inr (Response None)
          else Inl (Backend_exn ''permission denied'')" "''u4''"]
  by simp

text \<open>
  C7. The vehicle percentage is \<open>(V1 * vehicle_frac / V2) * 100\<close> and is only compared
  with the cap. In single dilution the volumes and the percentage are computed whatever
  the cap is, and the warning is shown exactly when the percentage is above the cap. In
  the experiment series every concentration gets its row, with stock volume, medium
  volume and (rounded) percentage computed whatever the cap is, and the cap decides the
  flag of the row only. In the witness the percentage is above the cap in single
  dilution and in the second row of the series.
\<close>

theorem vehicle_check_advisory:
  assumes "0 < stock_conc" "0 < well_volume g" "0 < stock_conc_uM"
  shows "(\<exists>r. single_dilution g stock_conc u target_conc u = Inr r
            \<and> sd_v1_ul r = (target_conc * well_volume g) / stock_conc
            \<and> sd_solvent_ul r = max 0 (well_volume g - sd_v1_ul r)
            \<and> sd_vehicle_percent r = (sd_v1_ul r * vehicle_frac g / well_volume g) * 100
            \<and> sd_vehicle_warning r = (max_vehicle g < sd_vehicle_percent r))
       \<and> (\<exists>rows. experiment_series g concs stock_conc_uM reps overfill = Inr rows
            \<and> length rows = length concs
            \<and> (\<forall>i < length concs.
                  es_final_conc (rows ! i) = concs ! i
                \<and> es_add_stock (rows ! i) = py_round ((concs ! i * well_volume g) / stock_conc_uM) 3
                \<and> es_add_medium (rows ! i) =
                    py_round (well_volume g - (concs ! i * well_volume g) / stock_conc_uM) 3
                \<and> es_vehicle_percent (rows ! i) =
                    py_round (((concs ! i * well_volume g) / stock_conc_uM * vehicle_frac g
                                / well_volume g) * 100) 5
                \<and> es_ok (rows ! i) =
                    (if max_vehicle g <
                        ((concs ! i * well_volume g) / stock_conc_uM * vehicle_frac g
                           / well_volume g) * 100
                     then Over_limit else Ok_mark)))"
proof -
  have nz: "stock_conc \<noteq> 0" "well_volume g \<noteq> 0" "stock_conc_uM \<noteq> 0" using assms by auto
  have single: "\<exists>r. single_dilution g stock_conc u target_conc u = Inr r
            \<and> sd_v1_ul r = (target_conc * well_volume g) / stock_conc
            \<and> sd_solvent_ul r = max 0 (well_volume g - sd_v1_ul r)
            \<and> sd_vehicle_percent r = (sd_v1_ul r * vehicle_frac g / well_volume g) * 100
            \<and> sd_vehicle_warning r = (max_vehicle g < sd_vehicle_percent r)"
    using nz by (simp add: single_dilution_def Let_def max_def)
  let ?rows = "map (\<lambda>c. projr (series_row_of g stock_conc_uM reps overfill c)) concs"
  have run: "experiment_series g concs stock_conc_uM reps overfill = Inr ?rows"
    by (simp add: experiment_series_def experiment_series_loop_closed [OF nz(3,2)])
  have rows: "\<forall>i < length concs.
                  es_final_conc (?rows ! i) = concs ! i
                \<and> es_add_stock (?rows ! i) = py_round ((concs ! i * well_volume g) / stock_conc_uM) 3
                \<and> es_add_medium (?rows ! i) =
                    py_round (well_volume g - (concs ! i * well_volume g) / stock_conc_uM) 3
                \<and> es_vehicle_percent (?rows ! i) =
                    py_round (((concs ! i * well_volume g) / stock_conc_uM * vehicle_frac g
                                / well_volume g) * 100) 5
                \<and> es_ok (?rows ! i) =
                    (if max_vehicle g <
                        ((concs ! i * well_volume g) / stock_conc_uM * vehicle_frac g
                           / well_volume g) * 100
                     then Over_limit else Ok_mark)"
    by (simp add: series_row_of_closed [OF nz(3,2)])
  have "length ?rows = length concs" by simp
  with run rows single show ?thesis by blast
qed

theorem vehicle_check_advisory_witness:
  "(\<exists>r. single_dilution
          \<lparr>well_volume = 300, max_vehicle = 1 / 10, vehicle_type = DMSO,
           stock_vehicle_percent = 100\<rparr> 25 Unit_mM 4 Unit_mM = Inr r
        \<and> sd_v1_ul r = 48 \<and> sd_solvent_ul r = 252
        \<and> sd_vehicle_percent r = 16 \<and> sd_vehicle_warning r)
   \<and> (\<exists>rows. experiment_series
          \<lparr>well_volume = 300, max_vehicle = 1 / 10, vehicle_type = DMSO,
           stock_vehicle_percent = 100\<rparr> [1, 100] 10000 3 (11 / 10) = Inr rows
        \<and> length rows = 2
        \<and> es_add_stock (rows ! 0) = 3 / 100 \<and> es_ok (rows ! 0) = Ok_mark
        \<and> es_add_stock (rows ! 1) = 3 \<and> es_ok (rows ! 1) = Over_limit)"
  using vehicle_check_advisory [of 25
          "\<lparr>well_volume = 300, max_vehicle = 1 / 10, vehicle_type = DMSO,
            stock_vehicle_percent = 100\<rparr>" 10000 Unit_mM 4 "[1, 100]" 3 "11 / 10"]
  by (simp add: vehicle_frac_def py_round_def round_half_even_def Let_def
        All_less_Suc2 numeral_2_eq_2 del: All_less_Suc) fastforce








end
